theory Spec2Isabelle
  imports Complex_Main "HOL-Library.Sublist"
begin

section \<open>Python strings and integers\<close>

text \<open>
  Strings are ASCII character lists.  The helpers below are the string methods and
  conversions that \<^verbatim>\<open>stage3_cache_values.py\<close> calls, written out on lists:
  \<^verbatim>\<open>sub in s\<close>, \<^verbatim>\<open>s.strip()\<close>, \<^verbatim>\<open>s.split()\<close>, \<^verbatim>\<open>s.split(sep)\<close>,
  \<^verbatim>\<open>s.replace(old, new)\<close>, \<^verbatim>\<open>int(s)\<close>, \<^verbatim>\<open>str(n)\<close> and the format \<^verbatim>\<open>{n:02d}\<close>.
\<close>

definition is_space :: "char \<Rightarrow> bool" where
  "is_space c = (c \<in> set [CHR '' '', CHR 0x09, CHR 0x0A, CHR 0x0B, CHR 0x0C, CHR 0x0D,
                            CHR 0x1C, CHR 0x1D, CHR 0x1E, CHR 0x1F])"

definition is_digit :: "char \<Rightarrow> bool" where
  "is_digit c = (c \<in> set ''0123456789'')"

definition digit_val :: "char \<Rightarrow> nat" where
  "digit_val c = of_char c - 48"

definition digit_char :: "nat \<Rightarrow> char" where
  "digit_char d = ''0123456789'' ! d"

text \<open>\<^verbatim>\<open>sub in s\<close>: \<^verbatim>\<open>sub\<close> occurs in \<^verbatim>\<open>s\<close> as a contiguous block.\<close>

fun py_in :: "string \<Rightarrow> string \<Rightarrow> bool" where
  "py_in sub [] = (sub = [])"
| "py_in sub (c # cs) = (prefix sub (c # cs) \<or> py_in sub cs)"

definition py_strip :: "string \<Rightarrow> string" where
  "py_strip s = rev (dropWhile is_space (rev (dropWhile is_space s)))"

text \<open>\<^verbatim>\<open>s.split()\<close>: the maximal runs of non-whitespace characters, in order.\<close>

fun words_from :: "string \<Rightarrow> string \<Rightarrow> string list" where
  "words_from cur [] = (if cur = [] then [] else [rev cur])"
| "words_from cur (c # cs) =
     (if is_space c then (if cur = [] then words_from [] cs else rev cur # words_from [] cs)
      else words_from (c # cur) cs)"

definition py_split_ws :: "string \<Rightarrow> string list" where
  "py_split_ws s = words_from [] s"

text \<open>
  \<^verbatim>\<open>s.split(sep)\<close> for a non-empty separator: scan left to right, cut at every
  occurrence of \<^verbatim>\<open>sep\<close> and continue behind it.  \<open>cur\<close> holds the piece being read,
  reversed.
\<close>

function split_from :: "string \<Rightarrow> string \<Rightarrow> string \<Rightarrow> string list" where
  "split_from sep cur [] = [rev cur]"
| "split_from sep cur (c # cs) =
     (if sep \<noteq> [] \<and> prefix sep (c # cs)
      then rev cur # split_from sep [] (drop (length sep) (c # cs))
      else split_from sep (c # cur) cs)"
  by pat_completeness auto
termination
  by (relation "measure (\<lambda>(sep, cur, s). length s)") (auto simp: Suc_le_eq)

definition py_split :: "string \<Rightarrow> string \<Rightarrow> string list" where
  "py_split sep s = split_from sep [] s"

text \<open>\<^verbatim>\<open>s.replace(old, new)\<close> for a non-empty \<^verbatim>\<open>old\<close>.\<close>

function py_replace :: "string \<Rightarrow> string \<Rightarrow> string \<Rightarrow> string" where
  "py_replace old new [] = []"
| "py_replace old new (c # cs) =
     (if old \<noteq> [] \<and> prefix old (c # cs)
      then new @ py_replace old new (drop (length old) (c # cs))
      else c # py_replace old new cs)"
  by pat_completeness auto
termination
  by (relation "measure (\<lambda>(old, new, s). length s)") (auto simp: Suc_le_eq)

text \<open>
  \<^verbatim>\<open>int(s)\<close>: surrounding whitespace is stripped, one sign is allowed, and the body is
  decimal digits, where single underscores may stand between digits.  Everything else
  raises \<^verbatim>\<open>ValueError\<close>, here \<open>None\<close>.
\<close>

definition digits_val :: "string \<Rightarrow> nat" where
  "digits_val ds = foldl (\<lambda>a c. 10 * a + digit_val c) 0 ds"

definition int_body_ok :: "string \<Rightarrow> bool" where
  "int_body_ok b = (b \<noteq> [] \<and> list_all (\<lambda>c. is_digit c \<or> c = CHR ''_'') b \<and>
                    is_digit (hd b) \<and> is_digit (last b) \<and> \<not> py_in ''__'' b)"

definition int_body :: "string \<Rightarrow> int option" where
  "int_body b = (if int_body_ok b then Some (int (digits_val (filter is_digit b))) else None)"

definition py_int :: "string \<Rightarrow> int option" where
  "py_int s =
     (case py_strip s of
        [] \<Rightarrow> None
      | c # r \<Rightarrow>
          if c = CHR ''-'' then map_option uminus (int_body r)
          else if c = CHR ''+'' then int_body r
          else int_body (c # r))"

text \<open>\<^verbatim>\<open>str(n)\<close> for an integer, and the zero-padded format \<^verbatim>\<open>f"{n:02d}"\<close>.\<close>

function str_nat :: "nat \<Rightarrow> string" where
  "str_nat n = (if n < 10 then [digit_char n] else str_nat (n div 10) @ [digit_char (n mod 10)])"
  by pat_completeness auto
termination
  by (relation "measure id") auto

declare str_nat.simps [simp del]

definition str_int :: "int \<Rightarrow> string" where
  "str_int i = (if i < 0 then CHR ''-'' # str_nat (nat (- i)) else str_nat (nat i))"

definition fmt_02d :: "int \<Rightarrow> string" where
  "fmt_02d i = (if 0 \<le> i \<and> i < 10 then CHR ''0'' # str_int i else str_int i)"

text \<open>Python's \<^verbatim>\<open>max\<close> and \<^verbatim>\<open>min\<close> over a sequence; an empty one raises \<^verbatim>\<open>ValueError\<close>.\<close>

fun py_max :: "int list \<Rightarrow> int option" where
  "py_max [] = None"
| "py_max (x # xs) = Some (fold (\<lambda>y m. if m < y then y else m) xs x)"

fun py_min :: "int list \<Rightarrow> int option" where
  "py_min [] = None"
| "py_min (x # xs) = Some (fold (\<lambda>y m. if y < m then y else m) xs x)"


section \<open>Dates, constants and tables\<close>

text \<open>
  Trade dates are \<^verbatim>\<open>'YYYY-MM-DD'\<close> strings, written by stage 2 with \<^verbatim>\<open>strftime\<close>; the
  keys of the commit dictionary are the first ten characters of a commit timestamp, the
  same format.  The source converts with \<^verbatim>\<open>strptime\<close> and \<^verbatim>\<open>strftime\<close> around its
  \<^verbatim>\<open>timedelta\<close> arithmetic.  Here such a string is its day number (the proleptic
  Gregorian ordinal of \<^verbatim>\<open>datetime\<close>), so both conversions are the identity,
  \<^verbatim>\<open>timedelta(days=k)\<close> adds \<open>k\<close>, and comparing two midnights compares day numbers.
\<close>

type_synonym date = int

definition is_leap :: "int \<Rightarrow> bool" where
  "is_leap y = (y mod 4 = 0 \<and> (y mod 100 \<noteq> 0 \<or> y mod 400 = 0))"

definition days_before_year :: "int \<Rightarrow> int" where
  "days_before_year y = (y - 1) * 365 + (y - 1) div 4 - (y - 1) div 100 + (y - 1) div 400"

definition days_in_month :: "int \<Rightarrow> int \<Rightarrow> int" where
  "days_in_month y m =
     (if m = 2 then (if is_leap y then 29 else 28)
      else if m \<in> {4, 6, 9, 11} then 30 else 31)"

definition days_before_month :: "int \<Rightarrow> int \<Rightarrow> int" where
  "days_before_month y m = sum_list (map (days_in_month y) [1..m - 1])"

definition ymd2ord :: "int \<Rightarrow> int \<Rightarrow> int \<Rightarrow> date" where
  "ymd2ord y m d = days_before_year y + days_before_month y m + d"

text \<open>\<^verbatim>\<open>constants.py\<close>\<close>

definition DRAFT_COMPLETION_DATE :: date where
  "DRAFT_COMPLETION_DATE = ymd2ord 2025 5 5"

definition SEASON_START_DATE :: date where
  "SEASON_START_DATE = ymd2ord 2025 9 3"

definition FAAB_VALUE_PER_DOLLAR :: int where
  "FAAB_VALUE_PER_DOLLAR = 1"

definition ROUND_ORDINALS :: "int \<Rightarrow> string option" where
  "ROUND_ORDINALS r =
     (if r = 1 then Some ''1st'' else if r = 2 then Some ''2nd'' else if r = 3 then Some ''3rd''
      else if r = 4 then Some ''4th'' else if r = 5 then Some ''5th'' else None)"

text \<open>\<^verbatim>\<open>PickTier\<close>: the three tier values and the two class methods.\<close>

definition EARLY_FIRST :: int where "EARLY_FIRST = 5430"
definition MID_FIRST :: int where "MID_FIRST = 2558"
definition LATE_FIRST :: int where "LATE_FIRST = 1232"

definition get_value :: "int \<Rightarrow> int" where
  "get_value pick = (if pick \<le> 4 then EARLY_FIRST else if pick \<le> 8 then MID_FIRST else LATE_FIRST)"

definition get_tier_name :: "int \<Rightarrow> string" where
  "get_tier_name pick = (if pick \<le> 4 then ''Early'' else if pick \<le> 8 then ''Mid'' else ''Late'')"

text \<open>
  A value table is the list of rows of the DynastyProcess CSV; only the columns
  \<^verbatim>\<open>player\<close> and \<^verbatim>\<open>value_2qb\<close> are read (name cells are taken to be present).
  Values are the numbers of the CSV; nothing is computed from them but comparisons
  with 0, so they are rationals here.
\<close>

record vrow =
  player :: string
  value_2qb :: rat

type_synonym values_df = "vrow list"

text \<open>An entry of \<^verbatim>\<open>PICK_LINEAGE[(origin_owner, round_num)]\<close>; \<open>lin_player\<close> is its key \<^verbatim>\<open>'player'\<close>.\<close>

record lineage =
  final_owner :: string
  pick_in_round :: int
  lin_player :: string
  overall_pick :: int

text \<open>
  The projection frame: its column names and its rows.  A row has its \<^verbatim>\<open>Team\<close> and a
  value under every column name of the frame.
\<close>

record proj_row =
  Team :: string
  cell :: "string \<Rightarrow> rat"

record proj_df =
  columns :: "string list"
  rows :: "proj_row list"

datatype validation_failure =
  RequiredFileNotFound | NoCachedValues | MissingColumns | TooManyZeroValues

datatype error = ValueError | KeyError | APIError | ValidationError validation_failure

datatype metaval = MStr string | MInt int

type_synonym meta = "(string \<times> metaval) list"

text \<open>
  What the functions read besides their arguments: the module-level tables, the
  configuration, and the outside world.
  \<^item> \<open>str_contains pat s\<close> is pandas' \<^verbatim>\<open>Series.str.contains(pat, case=False, na=False)\<close>
    on one cell \<open>s\<close>: a case-insensitive regular-expression search.  It is a parameter,
    so every theorem holds for the regular-expression search as for any other matcher.
  \<^item> \<open>PICK_LINEAGE\<close>, \<open>PICK_PROJECTIONS\<close>: the module-level tables, built at import.
  \<^item> \<open>git_commit_search_days\<close>, \<open>max_zero_value_pct\<close>: \<^verbatim>\<open>config.validation\<close>.
  \<^item> \<open>current_values\<close>: the current table as \<^verbatim>\<open>pd.read_csv\<close> returns it, \<open>None\<close> when it raises.
  \<^item> \<open>get_all_commits_since\<close>: the dictionary from dates to commit SHAs, empty when the
    request fails.
  \<^item> \<open>read_commit_csv sha\<close>: \<^verbatim>\<open>pd.read_csv\<close> of the table at a commit, \<open>None\<close> when it raises.
\<close>

record env =
  str_contains :: "string \<Rightarrow> string \<Rightarrow> bool"
  PICK_LINEAGE :: "string \<times> int \<Rightarrow> lineage list option"
  PICK_PROJECTIONS :: proj_df
  git_commit_search_days :: int
  max_zero_value_pct :: rat
  current_values :: "values_df option"
  get_all_commits_since :: "date \<Rightarrow> date \<Rightarrow> string option"
  read_commit_csv :: "string \<Rightarrow> values_df option"

text \<open>\<^verbatim>\<open>df[df['player'].str.contains(pat, case=False, na=False)]\<close>\<close>

definition matches :: "env \<Rightarrow> values_df \<Rightarrow> string \<Rightarrow> values_df" where
  "matches env df pat = filter (\<lambda>r. str_contains env pat (player r)) df"

text \<open>
  The truth value of the \<^verbatim>\<open>origin_owner\<close> cell: a missing cell is read back from the
  CSV as NaN, which is true in Python; a string is true when it is not empty.
\<close>

definition truthy_origin :: "string option \<Rightarrow> bool" where
  "truthy_origin origin = (case origin of None \<Rightarrow> True | Some s \<Rightarrow> s \<noteq> [])"

text \<open>\<^verbatim>\<open>PICK_LINEAGE.get((origin_owner, round_num), [])\<close>; the keys of the table are strings.\<close>

definition lineage_get :: "env \<Rightarrow> string option \<Rightarrow> int \<Rightarrow> lineage list" where
  "lineage_get env origin round_num =
     (case origin of
        None \<Rightarrow> []
      | Some ow \<Rightarrow> (case PICK_LINEAGE env (ow, round_num) of None \<Rightarrow> [] | Some l \<Rightarrow> l))"


section \<open>Weekly projection columns\<close>

text \<open>
  \<^verbatim>\<open>re.match(f'Week(\d+)_2026_{round_name}', col)\<close> followed by \<^verbatim>\<open>int(match.group(1))\<close>:
  the column starts with \<^verbatim>\<open>Week\<close>, then comes the longest run of digits, which is not
  empty, then \<^verbatim>\<open>_2026_\<close> and the round name.  The match is anchored at the start only.
  (The round names of \<open>ROUND_ORDINALS\<close> hold no regular-expression operator.)
\<close>

definition week_of_column :: "string \<Rightarrow> string \<Rightarrow> int option" where
  "week_of_column round_name col =
     (if prefix ''Week'' col then
        (let rest = drop 4 col; ds = takeWhile is_digit rest
         in if ds \<noteq> [] \<and> prefix (''_2026_'' @ round_name) (dropWhile is_digit rest)
            then Some (int (digits_val ds)) else None)
      else None)"

definition get_available_weeks :: "string list \<Rightarrow> string \<Rightarrow> int list" where
  "get_available_weeks cols round_name = sort (List.map_filter (week_of_column round_name) cols)"

definition week_column :: "int \<Rightarrow> string \<Rightarrow> string" where
  "week_column week round_name = ''Week'' @ str_int week @ ''_2026_'' @ round_name"

definition get_best_week_column :: "string list \<Rightarrow> string \<Rightarrow> int \<Rightarrow> error + string \<times> int" where
  "get_best_week_column cols round_name target_week =
     (let available_weeks = get_available_weeks cols round_name in
      if available_weeks = [] then Inl ValueError
      else
        (let selected_week =
               (if target_week \<in> set available_weeks then Some target_week
                else if list_ex (\<lambda>w. w \<le> target_week) available_weeks
                     then py_max (filter (\<lambda>w. w \<le> target_week) available_weeks)
                else py_min available_weeks)
         in case selected_week of
              None \<Rightarrow> Inl ValueError
            | Some w \<Rightarrow> Inr (week_column w round_name, w)))"

definition get_latest_week_column :: "string list \<Rightarrow> string \<Rightarrow> error + string \<times> int" where
  "get_latest_week_column cols round_name =
     (let available_weeks = get_available_weeks cols round_name in
      if available_weeks = [] then Inl ValueError
      else case py_max available_weeks of
             None \<Rightarrow> Inl ValueError
           | Some latest_week \<Rightarrow> Inr (week_column latest_week round_name, latest_week))"


section \<open>Valuing a pick of the 2025 draft\<close>

text \<open>
  \<^verbatim>\<open>int(pick_name.split('Round')[1].strip())\<close> under \<^verbatim>\<open>try\<close>: a missing second piece
  (IndexError) and a piece that is no integer (ValueError) both end in \<open>None\<close>.
\<close>

definition parse_round :: "string \<Rightarrow> int option" where
  "parse_round pick_name =
     (case py_split ''Round'' pick_name of
        _ # p # _ \<Rightarrow> py_int (py_strip p)
      | _ \<Rightarrow> None)"

definition pick_position :: "int \<Rightarrow> int \<Rightarrow> string" where
  "pick_position round_num pick = str_int round_num @ ''.'' @ fmt_02d pick"

definition exact_pick :: "int \<Rightarrow> int \<Rightarrow> string" where
  "exact_pick round_num pick = ''2025 Pick '' @ pick_position round_num pick"

definition round_ordinal :: "int \<Rightarrow> string \<Rightarrow> string" where
  "round_ordinal r shown = (case ROUND_ORDINALS r of Some ord \<Rightarrow> ord | None \<Rightarrow> shown @ ''th'')"

definition get_2025_pick_value ::
  "env \<Rightarrow> string \<Rightarrow> string option \<Rightarrow> date \<Rightarrow> values_df \<Rightarrow> bool \<Rightarrow> rat \<times> string \<times> meta option" where
  "get_2025_pick_value env pick_name origin trade_dt df_values is_current =
     (case parse_round pick_name of
        None \<Rightarrow> (0, ''Parse error'', None)
      | Some round_num \<Rightarrow>
          (case lineage_get env origin round_num of
             [] \<Rightarrow> (0, ''No lineage'', None)
           | lin # _ \<Rightarrow>
               (let pl = lin_player lin; pick = pick_in_round lin in
                if trade_dt < DRAFT_COMPLETION_DATE then
                  (if is_current then
                     (case matches env df_values pl of
                        m # _ \<Rightarrow> (value_2qb m, ''Player:'' @ pl,
                                  Some [(''player'', MStr pl),
                                        (''pick_position'', MStr (pick_position round_num pick))])
                      | [] \<Rightarrow> (0, ''Player not found:'' @ pl, None))
                   else
                     (case matches env df_values (exact_pick round_num pick) of
                        m # _ \<Rightarrow> (value_2qb m, ''Git:'' @ exact_pick round_num pick,
                                  Some [(''pick_exact'', MStr (exact_pick round_num pick))])
                      | [] \<Rightarrow>
                          (if round_num = 1 then
                             (of_int (get_value pick), ''Tier:'' @ get_tier_name pick @ '' 1st'',
                              Some [(''tier'', MStr (get_tier_name pick)),
                                    (''pick_position'', MStr (pick_position round_num pick))])
                           else
                             (let ordinal = round_ordinal round_num (str_int round_num) in
                              case matches env df_values (''2026 '' @ ordinal) of
                                m # _ \<Rightarrow> (value_2qb m, ''Fallback:Generic '' @ ordinal, None)
                              | [] \<Rightarrow> (0, ''Not found'', None)))))
                else
                  (case matches env df_values pl of
                     m # _ \<Rightarrow> (value_2qb m, ''Player:'' @ pl @ '' (post-draft)'',
                               Some [(''player'', MStr pl)])
                   | [] \<Rightarrow> (0, ''Player not found:'' @ pl, None)))))"


section \<open>Valuing a pick of a later draft\<close>

text \<open>\<^verbatim>\<open>PICK_PROJECTIONS[PICK_PROJECTIONS['Team'] == origin_owner]\<close>; NaN equals no team.\<close>

definition team_rows :: "env \<Rightarrow> string option \<Rightarrow> proj_row list" where
  "team_rows env origin =
     (case origin of
        None \<Rightarrow> []
      | Some ow \<Rightarrow> filter (\<lambda>r. Team r = ow) (rows (PICK_PROJECTIONS env)))"

text \<open>\<^verbatim>\<open>team_row.iloc[0][column_name]\<close>: a column the frame does not have raises \<^verbatim>\<open>KeyError\<close>.\<close>

definition iloc0 :: "env \<Rightarrow> proj_row \<Rightarrow> string \<Rightarrow> error + rat" where
  "iloc0 env r column_name =
     (if column_name \<in> set (columns (PICK_PROJECTIONS env)) then Inr (cell r column_name)
      else Inl KeyError)"

text \<open>
  The first block of \<^verbatim>\<open>get_2026_plus_pick_value\<close> (picks of 2026).  \<open>Inr None\<close> means
  that the block was left without a \<^verbatim>\<open>return\<close>.  \<^verbatim>\<open>int(round_num)\<close> stands outside the
  \<^verbatim>\<open>try\<close>, so its \<^verbatim>\<open>ValueError\<close> leaves the function; so does the \<^verbatim>\<open>KeyError\<close> of the
  cell access, which the \<^verbatim>\<open>except ValueError\<close> does not catch.
\<close>

definition projection_2026 ::
  "env \<Rightarrow> string \<Rightarrow> string option \<Rightarrow> date \<Rightarrow> string \<Rightarrow> error + (rat \<times> string \<times> meta option) option" where
  "projection_2026 env pick_name origin trade_dt round_num =
     (if py_in ''2026'' pick_name \<and> truthy_origin origin then
        (let days = trade_dt - SEASON_START_DATE;
             week = max 2 (days div 7 + 1)
         in case py_int round_num of
              None \<Rightarrow> Inl ValueError
            | Some r \<Rightarrow>
                (case ROUND_ORDINALS r of
                   None \<Rightarrow> Inr None
                 | Some round_name \<Rightarrow>
                     (case team_rows env origin of
                        [] \<Rightarrow> Inr None
                      | team_row # _ \<Rightarrow>
                          (case get_best_week_column (columns (PICK_PROJECTIONS env)) round_name week of
                             Inl _ \<Rightarrow> Inr None
                           | Inr (column_name, selected_week) \<Rightarrow>
                               (case iloc0 env team_row column_name of
                                  Inl e \<Rightarrow> Inl e
                                | Inr v \<Rightarrow>
                                    Inr (Some (v, ''Projection:Week'' @ str_int selected_week @ ''_'' @ round_name,
                                       Some [(''week'', MInt selected_week), (''target_week'', MInt week),
                                             (''origin'', MStr (case origin of None \<Rightarrow> [] | Some ow \<Rightarrow> ow)),
                                             (''round'', MStr round_name),
                                             (''column_used'', MStr column_name)])))))))
      else Inr None)"

text \<open>The second block (picks of 2027 and 2028): the latest week stands in.\<close>

definition projection_later ::
  "env \<Rightarrow> string \<Rightarrow> string option \<Rightarrow> string \<Rightarrow> error + (rat \<times> string \<times> meta option) option" where
  "projection_later env pick_name origin round_num =
     (if (py_in ''2027'' pick_name \<or> py_in ''2028'' pick_name) \<and> truthy_origin origin then
        (case py_int round_num of
           None \<Rightarrow> Inl ValueError
         | Some r \<Rightarrow>
             (case ROUND_ORDINALS r of
                None \<Rightarrow> Inr None
              | Some round_name \<Rightarrow>
                  (case team_rows env origin of
                     [] \<Rightarrow> Inr None
                   | team_row # _ \<Rightarrow>
                       (case get_latest_week_column (columns (PICK_PROJECTIONS env)) round_name of
                          Inl _ \<Rightarrow> Inr None
                        | Inr (column_name, latest_week) \<Rightarrow>
                            (case iloc0 env team_row column_name of
                               Inl e \<Rightarrow> Inl e
                             | Inr v \<Rightarrow>
                                 Inr (Some (v, ''Projection:Week'' @ str_int latest_week @ ''_2026_'' @ round_name,
                                    Some [(''origin'', MStr (case origin of None \<Rightarrow> [] | Some ow \<Rightarrow> ow)),
                                          (''round'', MStr round_name),
                                          (''latest_week_used'', MInt latest_week),
                                          (''column_used'', MStr column_name)])))))))
      else Inr None)"

text \<open>The last block: the generic \<^verbatim>\<open>"<year> <ordinal>"\<close> entry of the value table.\<close>

definition generic_fallback ::
  "env \<Rightarrow> string \<Rightarrow> string \<Rightarrow> values_df \<Rightarrow> error + rat \<times> string \<times> meta option" where
  "generic_fallback env year round_num df_values =
     (case py_int round_num of
        None \<Rightarrow> Inl ValueError
      | Some r \<Rightarrow>
          (let search = year @ '' '' @ round_ordinal r round_num in
           case matches env df_values search of
             m # _ \<Rightarrow> Inr (value_2qb m, ''Fallback:Generic:'' @ search, None)
           | [] \<Rightarrow> Inr (0, ''Not found'', None)))"

definition get_2026_plus_pick_value ::
  "env \<Rightarrow> string \<Rightarrow> string option \<Rightarrow> date \<Rightarrow> values_df \<Rightarrow> error + rat \<times> string \<times> meta option" where
  "get_2026_plus_pick_value env pick_name origin trade_dt df_values =
     (case py_split_ws pick_name of
        year # w # round_num # _ \<Rightarrow>
          (if w = ''Round'' then
             (case projection_2026 env pick_name origin trade_dt round_num of
                Inl e \<Rightarrow> Inl e
              | Inr (Some res) \<Rightarrow> Inr res
              | Inr None \<Rightarrow>
                  (case projection_later env pick_name origin round_num of
                     Inl e \<Rightarrow> Inl e
                   | Inr (Some res) \<Rightarrow> Inr res
                   | Inr None \<Rightarrow> generic_fallback env year round_num df_values))
           else Inr (0, ''Parse error'', None))
      | _ \<Rightarrow> Inr (0, ''Parse error'', None))"


section \<open>The valuation run\<close>

text \<open>
  A row of \<^verbatim>\<open>asset_transactions.csv\<close> and a dictionary of \<^verbatim>\<open>cached_values\<close>.  The
  dictionary repeats seven cells of the row and adds the two values, their sources
  and the metadata.  (\<^verbatim>\<open>trade_type\<close> is read with a default for a frame without that
  column; stage 2 writes the column, so the cell is a string here.)
\<close>

record asset_row =
  trade_date :: date
  trade_id :: string
  trade_type :: string
  asset_type :: string
  asset_name :: string
  receiving_team :: string
  giving_team :: string
  origin_owner :: "string option"

text \<open>
  The metadata cell is a string: \<^verbatim>\<open>f"${amount}"\<close> for FAAB, else
  \<^verbatim>\<open>str(meta_current or meta_at_trade or '')\<close>.  \<open>Repr d\<close> stands for \<^verbatim>\<open>str(d)\<close> of a
  dictionary \<open>d\<close>.
\<close>

datatype metadata_cell = Text string | Repr meta

record valuation_record = asset_row +
  value_at_trade :: rat
  value_current :: rat
  value_source_at_trade :: string
  value_source_current :: string
  metadata :: metadata_cell

text \<open>
  The state that changes during a run: the dictionary \<^verbatim>\<open>git_df_cache\<close> of tables
  already loaded, the values recorded in the module-level \<^verbatim>\<open>metrics\<close> object, and the
  two accumulators of the loop.
\<close>

type_synonym metrics = "string \<Rightarrow> rat option"

record loop_state =
  git_df_cache :: "string \<Rightarrow> values_df option"
  metrics :: metrics
  cached_values :: "valuation_record list"
  zero_value_count :: nat

definition get_values_from_commit ::
  "env \<Rightarrow> string \<Rightarrow> loop_state \<Rightarrow> values_df option \<times> loop_state" where
  "get_values_from_commit env commit_sha st =
     (case git_df_cache st commit_sha of
        Some df \<Rightarrow> (Some df, st)
      | None \<Rightarrow>
          (case read_commit_csv env commit_sha of
             Some df \<Rightarrow>
               (Some df, st\<lparr>git_df_cache := (git_df_cache st)(commit_sha \<mapsto> df),
                             metrics := (metrics st)(''api.github.values.success'' \<mapsto> 1)\<rparr>)
           | None \<Rightarrow> (None, st\<lparr>metrics := (metrics st)(''api.github.values.error'' \<mapsto> 1)\<rparr>)))"

text \<open>\<^verbatim>\<open>if not commit_sha\<close>: true for \<^verbatim>\<open>None\<close> and for the empty string.\<close>

definition falsy_sha :: "string option \<Rightarrow> bool" where
  "falsy_sha sha = (sha = None \<or> sha = Some [])"

text \<open>
  One of the two \<^verbatim>\<open>for delta in range(1, n + 1)\<close> loops over the days \<open>ds\<close> it visits:
  the first day that is a key of the dictionary ends the loop with its SHA.
\<close>

fun scan_days :: "(date \<Rightarrow> string option) \<Rightarrow> date list \<Rightarrow> string option" where
  "scan_days commit_cache [] = None"
| "scan_days commit_cache (d # ds) =
     (case commit_cache d of Some sha \<Rightarrow> Some sha | None \<Rightarrow> scan_days commit_cache ds)"

definition find_commit :: "env \<Rightarrow> (date \<Rightarrow> string option) \<Rightarrow> date \<Rightarrow> string option" where
  "find_commit env commit_cache trade_dt =
     (let commit_sha = commit_cache trade_dt in
      if falsy_sha commit_sha then
        (let deltas = [1..git_commit_search_days env];
             commit_sha =
               (case scan_days commit_cache (map (\<lambda>delta. trade_dt - delta) deltas) of
                  Some sha \<Rightarrow> Some sha | None \<Rightarrow> commit_sha)
         in if falsy_sha commit_sha then
              (case scan_days commit_cache (map (\<lambda>delta. trade_dt + delta) deltas) of
                 Some sha \<Rightarrow> Some sha | None \<Rightarrow> commit_sha)
            else commit_sha)
      else commit_sha)"

text \<open>\<^verbatim>\<open>df_hist = None\<close>, then \<^verbatim>\<open>if commit_sha: df_hist = get_values_from_commit(...)\<close>.\<close>

definition load_hist :: "env \<Rightarrow> string option \<Rightarrow> loop_state \<Rightarrow> values_df option \<times> loop_state" where
  "load_hist env commit_sha st =
     (case commit_sha of
        None \<Rightarrow> (None, st)
      | Some sha \<Rightarrow> if sha = [] then (None, st) else get_values_from_commit env sha st)"

text \<open>The FAAB branch of the loop body; \<^verbatim>\<open>int\<close> may raise \<^verbatim>\<open>ValueError\<close>.\<close>

definition faab_amount :: "string \<Rightarrow> int option" where
  "faab_amount name = py_int (py_replace '' FAAB'' [] (py_replace ''$'' [] name))"

definition faab_record :: "asset_row \<Rightarrow> error + valuation_record" where
  "faab_record row =
     (case faab_amount (asset_name row) of
        None \<Rightarrow> Inl ValueError
      | Some amount \<Rightarrow>
          (let v = of_int (amount * FAAB_VALUE_PER_DOLLAR) in
           Inr \<lparr>trade_date = trade_date row, trade_id = trade_id row, trade_type = trade_type row,
                asset_type = asset_type row, asset_name = asset_name row,
                receiving_team = receiving_team row, giving_team = giving_team row,
                origin_owner = origin_owner row,
                value_at_trade = v, value_current = v,
                value_source_at_trade = ''FAAB'', value_source_current = ''FAAB'',
                metadata = Text (CHR ''$'' # str_int amount)\<rparr>))"

text \<open>\<^verbatim>\<open>str(meta_current or meta_at_trade or '')\<close>; an empty dictionary is false.\<close>

definition metadata_of :: "meta option \<Rightarrow> meta option \<Rightarrow> metadata_cell" where
  "metadata_of meta_current meta_at_trade =
     (if meta_current \<noteq> None \<and> meta_current \<noteq> Some [] then Repr (the meta_current)
      else if meta_at_trade \<noteq> None \<and> meta_at_trade \<noteq> Some [] then Repr (the meta_at_trade)
      else Text [])"

text \<open>
  The rest of the loop body, from \<^verbatim>\<open>if asset_type == 'pick'\<close> on: the two values,
  their sources and the two metadata dictionaries of a row that is not FAAB, given the
  current table, the SHA found and the historical table (\<open>None\<close> when there is none).
\<close>

definition value_asset ::
  "env \<Rightarrow> values_df \<Rightarrow> string option \<Rightarrow> values_df option \<Rightarrow> asset_row \<Rightarrow>
     error + (rat \<times> string \<times> meta option) \<times> (rat \<times> string \<times> meta option)" where
  "value_asset env df_current commit_sha df_hist row =
     (let name = asset_name row; origin = origin_owner row in
      if asset_type row = ''pick'' then
        (if py_in ''2025 Round'' name \<and> truthy_origin origin then
           (let df_for_at_trade = (case df_hist of Some df \<Rightarrow> df | None \<Rightarrow> df_current) in
            Inr (get_2025_pick_value env name origin (trade_date row) df_for_at_trade False,
                 get_2025_pick_value env name origin (trade_date row) df_current True))
         else if (py_in ''2026'' name \<or> py_in ''2027'' name \<or> py_in ''2028'' name)
                 \<and> truthy_origin origin then
           (let df_for_at_trade = (case df_hist of Some df \<Rightarrow> df | None \<Rightarrow> df_current) in
            case get_2026_plus_pick_value env name origin (trade_date row) df_for_at_trade of
              Inl e \<Rightarrow> Inl e
            | Inr at_trade \<Rightarrow>
                (case get_2026_plus_pick_value env name origin (trade_date row) df_current of
                   Inl e \<Rightarrow> Inl e
                 | Inr current \<Rightarrow> Inr (at_trade, current)))
         else Inr ((0, ''Unknown pick'', None), (0, ''Unknown pick'', None)))
      else
        (let at_trade =
               (case df_hist of
                  Some df \<Rightarrow>
                    (case matches env df name of
                       m # _ \<Rightarrow> (value_2qb m, ''Git:'' @ take 7 (case commit_sha of None \<Rightarrow> [] | Some sha \<Rightarrow> sha), None)
                     | [] \<Rightarrow> (0, ''Not found'', None))
                | None \<Rightarrow> (0, ''No Git commit'', None));
             current =
               (case matches env df_current name of
                  m # _ \<Rightarrow> (value_2qb m, ''DynastyProcess'', None)
                | [] \<Rightarrow> (0, ''Not found'', None))
         in Inr (at_trade, current)))"

text \<open>One pass of the loop body.  An exception ends the run with the state as it is.\<close>

definition process_row ::
  "env \<Rightarrow> values_df \<Rightarrow> (date \<Rightarrow> string option) \<Rightarrow> asset_row \<Rightarrow> loop_state \<Rightarrow>
     error option \<times> loop_state" where
  "process_row env df_current commit_cache row st =
     (if asset_type row = ''faab'' then
        (case faab_record row of
           Inl e \<Rightarrow> (Some e, st)
         | Inr rec \<Rightarrow> (None, st\<lparr>cached_values := cached_values st @ [rec]\<rparr>))
      else
        (let commit_sha = find_commit env commit_cache (trade_date row);
             (df_hist, st1) = load_hist env commit_sha st
         in case value_asset env df_current commit_sha df_hist row of
              Inl e \<Rightarrow> (Some e, st1)
            | Inr ((v_at, src_at, meta_at), (v_cur, src_cur, meta_cur)) \<Rightarrow>
                (None,
                 st1\<lparr>zero_value_count := (if v_at = 0 then zero_value_count st1 + 1
                                           else zero_value_count st1),
                     cached_values := cached_values st1 @
                       [\<lparr>trade_date = trade_date row, trade_id = trade_id row,
                         trade_type = trade_type row,
                         asset_type = asset_type row, asset_name = asset_name row,
                         receiving_team = receiving_team row, giving_team = giving_team row,
                         origin_owner = origin_owner row,
                         value_at_trade = v_at, value_current = v_cur,
                         value_source_at_trade = src_at, value_source_current = src_cur,
                         metadata = metadata_of meta_cur meta_at\<rparr>]\<rparr>)))"

fun process_rows ::
  "env \<Rightarrow> values_df \<Rightarrow> (date \<Rightarrow> string option) \<Rightarrow> asset_row list \<Rightarrow> loop_state \<Rightarrow>
     error option \<times> loop_state" where
  "process_rows env df_current commit_cache [] st = (None, st)"
| "process_rows env df_current commit_cache (row # rest) st =
     (case process_row env df_current commit_cache row st of
        (Some e, st1) \<Rightarrow> (Some e, st1)
      | (None, st1) \<Rightarrow> process_rows env df_current commit_cache rest st1)"

text \<open>
  \<^verbatim>\<open>cache_asset_values\<close>.  The current table that cannot be read, or that has no first
  row for \<^verbatim>\<open>scrape_date\<close>, is an \<^verbatim>\<open>APIError\<close>.  The earliest trade date of a frame
  without rows is \<^verbatim>\<open>NaT\<close>, whose \<^verbatim>\<open>strftime\<close> raises \<^verbatim>\<open>ValueError\<close>.  The
  dictionary \<^verbatim>\<open>git_df_cache\<close> starts empty in every call; \<open>mt\<close> is what the process has
  recorded in \<^verbatim>\<open>metrics\<close> so far.
\<close>

definition cache_asset_values ::
  "env \<Rightarrow> metrics \<Rightarrow> asset_row list \<Rightarrow> (error + valuation_record list) \<times> metrics" where
  "cache_asset_values env mt df_assets =
     (case current_values env of
        None \<Rightarrow> (Inl APIError, mt)
      | Some [] \<Rightarrow> (Inl APIError, mt)
      | Some (v # vs) \<Rightarrow>
          (let df_current = v # vs;
               mt1 = mt(''count.current_values_loaded'' \<mapsto> of_nat (length df_current))
           in case df_assets of
                [] \<Rightarrow> (Inl ValueError, mt1)
              | row # rest \<Rightarrow>
                  (let earliest_date = fold min (map trade_date rest) (trade_date row);
                       commit_cache =
                         get_all_commits_since env (earliest_date - git_commit_search_days env);
                       (raised, st) =
                         process_rows env df_current commit_cache df_assets
                           \<lparr>git_df_cache = Map.empty, metrics = mt1,
                            cached_values = [], zero_value_count = 0\<rparr>
                   in case raised of
                        Some e \<Rightarrow> (Inl e, metrics st)
                      | None \<Rightarrow>
                          (let zero_pct =
                                 (if cached_values st = [] then 0
                                  else of_nat (zero_value_count st) / of_nat (length (cached_values st)))
                           in (Inr (cached_values st),
                               (metrics st)(''count.zero_values'' \<mapsto> of_nat (zero_value_count st),
                                            ''percent.zero_values'' \<mapsto> zero_pct))))))"


section \<open>The quality gate and the stage\<close>

text \<open>
  \<^verbatim>\<open>StageValidator.validate_stage3_output\<close> on the rows of the file it reads.  Every
  dictionary of \<^verbatim>\<open>cached_values\<close> has the four required columns, so that check cannot
  fail on a frame with rows.  The division is Python's \<^verbatim>\<open>/\<close> on two counts and the
  comparison is one between floats; both are exact on rationals here.
\<close>

definition zero_at_trade :: "valuation_record list \<Rightarrow> nat" where
  "zero_at_trade df = length (filter (\<lambda>r. value_at_trade r = 0) df)"

definition validate_stage3_output :: "valuation_record list \<Rightarrow> rat \<Rightarrow> error + unit" where
  "validate_stage3_output df max_zero_pct =
     (if length df = 0 then Inl (ValidationError NoCachedValues)
      else
        (let zero_pct = of_nat (zero_at_trade df) / of_nat (length df) in
         if zero_pct > max_zero_pct then Inl (ValidationError TooManyZeroValues)
         else Inr ()))"

text \<open>
  The files \<^verbatim>\<open>main\<close> reads and writes: the input table, whether the three other
  required files are there, the output table and the backup copies.  A table written with
  \<^verbatim>\<open>to_csv\<close> is read back with \<^verbatim>\<open>read_csv\<close> as it was.
\<close>

record files =
  asset_transactions_csv :: "asset_row list option"
  other_required_files :: bool
  asset_values_cache_csv :: "valuation_record list option"
  backups :: "valuation_record list list"

definition validate_stage3_prerequisites :: "files \<Rightarrow> error + unit" where
  "validate_stage3_prerequisites fs =
     (if asset_transactions_csv fs = None \<or> \<not> other_required_files fs
      then Inl (ValidationError RequiredFileNotFound) else Inr ())"

text \<open>
  \<^verbatim>\<open>main\<close>: the result is the exception that leaves it or the name of the output
  file, together with the files and the metrics as they are then.
\<close>

definition main :: "env \<Rightarrow> files \<Rightarrow> metrics \<Rightarrow> (error + string) \<times> files \<times> metrics" where
  "main env fs mt =
     (case validate_stage3_prerequisites fs of
        Inl e \<Rightarrow> (Inl e, fs, mt)
      | Inr _ \<Rightarrow>
          (let df_assets = the (asset_transactions_csv fs) in
           case cache_asset_values env mt df_assets of
             (Inl e, mt1) \<Rightarrow> (Inl e, fs, mt1)
           | (Inr cached, mt1) \<Rightarrow>
               (let fs1 = fs\<lparr>asset_values_cache_csv := Some cached\<rparr>;
                    fs2 = fs1\<lparr>backups := backups fs1 @ [cached]\<rparr>
                in case validate_stage3_output cached (max_zero_value_pct env) of
                     Inl e \<Rightarrow> (Inl e, fs2, mt1)
                   | Inr _ \<Rightarrow> (Inr ''asset_values_cache.csv'', fs2, mt1))))"


section \<open>Concrete tables and rows\<close>

text \<open>
  Small tables for running the definitions.  The matcher of these runs is the plain
  occurrence test; on every pattern and cell that the runs below compare it answers as
  the case-insensitive regular-expression search does.
\<close>

definition ex_current :: values_df where
  "ex_current = [\<lparr>player = ''Brock Bowers'', value_2qb = 3500\<rparr>,
                 \<lparr>player = ''Josh Allen'', value_2qb = 7000\<rparr>]"

definition ex_historical :: values_df where
  "ex_historical = [\<lparr>player = ''Brock Bowers'', value_2qb = 3500\<rparr>,
                    \<lparr>player = ''Josh Allen'', value_2qb = 6500\<rparr>,
                    \<lparr>player = ''Tyreek Hill'', value_2qb = 801\<rparr>]"

definition ex_lineage :: "string \<times> int \<Rightarrow> lineage list option" where
  "ex_lineage key =
     (if key = (''tylerpilgrim'', 1)
      then Some [\<lparr>final_owner = ''tylerpilgrim'', pick_in_round = 1,
                  lin_player = ''Brock Bowers'', overall_pick = 1\<rparr>]
      else None)"

definition ex_projections :: proj_df where
  "ex_projections =
     \<lparr>columns = [''Team'', ''Week7_2026_2nd'', ''Week12_2026_2nd''],
      rows = [\<lparr>Team = ''jakeduf'',
               cell = (\<lambda>c. if c = ''Week7_2026_2nd'' then 1800 else 1650)\<rparr>]\<rparr>"

text \<open>No commit is known: the request for the commit list came back empty.\<close>

definition env_no_commits :: env where
  "env_no_commits =
     \<lparr>str_contains = py_in, PICK_LINEAGE = ex_lineage, PICK_PROJECTIONS = ex_projections,
      git_commit_search_days = 7, max_zero_value_pct = 1 / 10,
      current_values = Some ex_current,
      get_all_commits_since = (\<lambda>since. Map.empty),
      read_commit_csv = (\<lambda>sha. None)\<rparr>"

text \<open>A commit of 2025-10-01 is known, and reading its table fails.\<close>

definition env_fetch_fails :: env where
  "env_fetch_fails =
     env_no_commits\<lparr>get_all_commits_since :=
       (\<lambda>since. [ymd2ord 2025 10 1 \<mapsto> ''9f3c2ab41d77e05c6b8a''])\<rparr>"

text \<open>Commits of 2025-05-05 and 2025-10-01 are known, and their tables can be read.\<close>

definition env_with_history :: env where
  "env_with_history =
     env_no_commits\<lparr>get_all_commits_since :=
       (\<lambda>since. [ymd2ord 2025 5 5 \<mapsto> ''51d0e6f2c4a9b7730e1d'',
                  ymd2ord 2025 10 1 \<mapsto> ''9f3c2ab41d77e05c6b8a'']),
       read_commit_csv := (\<lambda>sha. Some ex_historical)\<rparr>"

definition row_player :: asset_row where
  "row_player =
     \<lparr>trade_date = ymd2ord 2025 10 1, trade_id = ''t1'', trade_type = ''2-team'',
      asset_type = ''player'', asset_name = ''Josh Allen'',
      receiving_team = ''lndahayo'', giving_team = ''jakeduf'', origin_owner = None\<rparr>"

definition row_player_gone :: asset_row where
  "row_player_gone =
     \<lparr>trade_date = ymd2ord 2025 10 1, trade_id = ''t3'', trade_type = ''2-team'',
      asset_type = ''player'', asset_name = ''Tyreek Hill'',
      receiving_team = ''jakeduf'', giving_team = ''lndahayo'', origin_owner = None\<rparr>"

definition row_faab :: asset_row where
  "row_faab =
     \<lparr>trade_date = ymd2ord 2025 10 1, trade_id = ''t1'', trade_type = ''2-team'',
      asset_type = ''faab'', asset_name = ''$50 FAAB'',
      receiving_team = ''jakeduf'', giving_team = ''lndahayo'', origin_owner = None\<rparr>"


definition st_empty :: loop_state where
  "st_empty = \<lparr>git_df_cache = Map.empty, metrics = Map.empty,
                cached_values = [], zero_value_count = 0\<rparr>"

definition files_with :: "asset_row list \<Rightarrow> files" where
  "files_with df_assets =
     \<lparr>asset_transactions_csv = Some df_assets, other_required_files = True,
      asset_values_cache_csv = None, backups = []\<rparr>"


section \<open>Facts about the string helpers\<close>

lemma digit_char_is_digit: "d < 10 \<Longrightarrow> is_digit (digit_char d)"
proof -
  assume "d < 10"
  then have "d \<in> {0,1,2,3,4,5,6,7,8,9}" by auto
  then show ?thesis
    by (auto simp: is_digit_def digit_char_def)
qed

lemma digit_val_digit_char: "d < 10 \<Longrightarrow> digit_val (digit_char d) = d"
proof -
  assume "d < 10"
  then have "d \<in> {0,1,2,3,4,5,6,7,8,9}" by auto
  then show ?thesis
    by (auto simp: digit_val_def digit_char_def)
qed

lemma str_nat_digits: "list_all is_digit (str_nat n)"
proof (induction n rule: str_nat.induct)
  case (1 n)
  show ?case
  proof (cases "n < 10")
    case True
    then show ?thesis by (subst str_nat.simps) (simp add: digit_char_is_digit)
  next
    case False
    with 1 show ?thesis by (subst str_nat.simps) (simp add: digit_char_is_digit)
  qed
qed

lemma str_nat_not_Nil: "str_nat n \<noteq> []"
  by (subst str_nat.simps) simp

lemma digits_val_snoc: "digits_val (ds @ [c]) = 10 * digits_val ds + digit_val c"
  by (simp add: digits_val_def)

lemma digits_val_str_nat: "digits_val (str_nat n) = n"
proof (induction n rule: str_nat.induct)
  case (1 n)
  show ?case
  proof (cases "n < 10")
    case True
    then show ?thesis
      by (subst str_nat.simps) (simp add: digits_val_def digit_val_digit_char)
  next
    case False
    with 1 show ?thesis
      by (subst str_nat.simps) (simp add: digits_val_snoc digit_val_digit_char)
  qed
qed

lemma py_in_subset: "py_in sub s \<Longrightarrow> set sub \<subseteq> set s"
proof (induction s)
  case Nil
  then show ?case by simp
next
  case (Cons c cs)
  from Cons.prems have "prefix sub (c # cs) \<or> py_in sub cs" by simp
  then show ?case
  proof
    assume "prefix sub (c # cs)"
    then show ?thesis by (rule set_mono_prefix)
  next
    assume "py_in sub cs"
    with Cons.IH show ?thesis by auto
  qed
qed

lemma is_digit_not_space: "is_digit c \<Longrightarrow> \<not> is_space c"
  by (auto simp: is_digit_def is_space_def)

lemma is_digit_plain:
  "is_digit c \<Longrightarrow> c \<noteq> CHR ''_'' \<and> c \<noteq> CHR ''-'' \<and> c \<noteq> CHR ''+'' \<and> c \<noteq> CHR ''$'' \<and> c \<noteq> CHR '' ''
     \<and> c \<noteq> CHR ''R'' \<and> c \<noteq> CHR ''.''"
  unfolding is_digit_def by auto

lemma py_strip_id:
  assumes "s \<noteq> []" "\<not> is_space (hd s)" "\<not> is_space (last s)"
  shows "py_strip s = s"
proof -
  from assms have 1: "dropWhile is_space s = s" by (cases s) simp_all
  from assms have "rev s \<noteq> []" "\<not> is_space (hd (rev s))" by (simp_all add: hd_rev)
  then have "dropWhile is_space (rev s) = rev s" by (cases "rev s") simp_all
  with 1 show ?thesis by (simp add: py_strip_def)
qed

lemma str_nat_ends:
  "is_digit (hd (str_nat n))" "is_digit (last (str_nat n))"
  using str_nat_digits[of n] str_nat_not_Nil[of n]
  by (simp_all add: list_all_iff)

lemma int_body_str_nat: "int_body (str_nat n) = Some (int n)"
proof -
  have d: "list_all is_digit (str_nat n)" by (rule str_nat_digits)
  have ne: "str_nat n \<noteq> []" by (rule str_nat_not_Nil)
  have u: "CHR ''_'' \<notin> set (str_nat n)"
  proof
    assume "CHR ''_'' \<in> set (str_nat n)"
    with d have "is_digit CHR ''_''" by (simp add: list_all_iff)
    then show False using is_digit_plain by blast
  qed
  have nu: "\<not> py_in ''__'' (str_nat n)"
  proof
    assume "py_in ''__'' (str_nat n)"
    then have "set ''__'' \<subseteq> set (str_nat n)" by (rule py_in_subset)
    with u show False by simp
  qed
  from d have f: "filter is_digit (str_nat n) = str_nat n"
    by (simp add: list_all_iff)
  have a: "list_all (\<lambda>c. is_digit c \<or> c = CHR ''_'') (str_nat n)"
    using d by (simp add: list_all_iff)
  from ne a str_nat_ends[of n] nu have "int_body_ok (str_nat n)"
    by (simp add: int_body_ok_def)
  with f show ?thesis
    by (simp add: int_body_def digits_val_str_nat)
qed

lemma py_int_str_int: "py_int (str_int i) = Some i"
proof (cases "i < 0")
  case True
  let ?s = "str_nat (nat (- i))"
  have ne: "?s \<noteq> []" by (rule str_nat_not_Nil)
  have "\<not> is_space (last ?s)"
    using str_nat_ends(2)[of "nat (- i)"] by (rule is_digit_not_space)
  with ne have "\<not> is_space (last (CHR ''-'' # ?s))" by simp
  moreover have "\<not> is_space (hd (CHR ''-'' # ?s))" by (simp add: is_space_def)
  ultimately have "py_strip (CHR ''-'' # ?s) = CHR ''-'' # ?s"
    by (intro py_strip_id) simp_all
  with True show ?thesis
    by (simp add: py_int_def str_int_def int_body_str_nat)
next
  case False
  let ?s = "str_nat (nat i)"
  have ne: "?s \<noteq> []" by (rule str_nat_not_Nil)
  then obtain c r where cr: "?s = c # r" by (cases ?s) auto
  from str_nat_ends(1)[of "nat i"] cr have dc: "is_digit c" by simp
  have "\<not> is_space (hd ?s)" "\<not> is_space (last ?s)"
    using str_nat_ends[of "nat i"] by (simp_all add: is_digit_not_space)
  with ne have st: "py_strip ?s = ?s" by (intro py_strip_id)
  from dc have "c \<noteq> CHR ''-''" "c \<noteq> CHR ''+''" using is_digit_plain by blast+
  with False st cr int_body_str_nat[of "nat i"] show ?thesis
    by (simp add: py_int_def str_int_def)
qed

lemma str_int_chars: "c \<in> set (str_int i) \<Longrightarrow> c = CHR ''-'' \<or> is_digit c"
  using str_nat_digits by (auto simp: str_int_def list_all_iff split: if_splits)

lemma str_int_not_Nil: "str_int i \<noteq> []"
  by (simp add: str_int_def str_nat_not_Nil)

lemma py_replace_absent:
  "old = c # cs \<Longrightarrow> c \<notin> set s \<Longrightarrow> py_replace old new s = s"
  by (induction s) auto

lemma py_replace_suffix:
  "old = c # cs \<Longrightarrow> c \<notin> set s \<Longrightarrow> py_replace old [] (s @ old) = s"
  by (induction s) auto

lemma faab_amount_format: "faab_amount (CHR ''$'' # str_int d @ '' FAAB'') = Some d"
proof -
  have 0: "CHR ''$'' \<notin> set (str_int d)" "CHR '' '' \<notin> set (str_int d)"
    using str_int_chars[of _ d] is_digit_plain by fastforce+
  then have 1: "CHR ''$'' \<notin> set (str_int d @ '' FAAB'')" by simp
  have "py_replace ''$'' [] (CHR ''$'' # str_int d @ '' FAAB'') = py_replace ''$'' [] (str_int d @ '' FAAB'')"
    by simp
  also have "\<dots> = str_int d @ '' FAAB''"
    using 1 by (intro py_replace_absent[where c = "CHR ''$''" and cs = "[]"]) simp_all
  finally have "py_replace '' FAAB'' [] (py_replace ''$'' [] (CHR ''$'' # str_int d @ '' FAAB'')) = str_int d"
    using py_replace_suffix[where old = "'' FAAB''" and s = "str_int d", OF _ 0(2)] by simp
  then show ?thesis by (simp add: faab_amount_def py_int_str_int)
qed

lemma str_int_50: "str_int 50 = ''50''"
  by (simp add: str_int_def str_nat.simps digit_char_def)


section \<open>Facts about the loop\<close>

lemma get_values_from_commit_frame:
  "get_values_from_commit env sha st = (r, st1) \<Longrightarrow>
   cached_values st1 = cached_values st \<and> zero_value_count st1 = zero_value_count st"
  by (auto simp: get_values_from_commit_def split: option.splits)

lemma load_hist_frame:
  "load_hist env sha st = (r, st1) \<Longrightarrow>
   cached_values st1 = cached_values st \<and> zero_value_count st1 = zero_value_count st"
  by (auto simp: load_hist_def split: option.splits if_splits dest: get_values_from_commit_frame)

lemma process_row_length:
  assumes "process_row env cur cc row st = (None, st1)"
  shows "length (cached_values st1) = Suc (length (cached_values st))"
proof (cases "asset_type row = ''faab''")
  case True
  with assms show ?thesis
    by (auto simp: process_row_def split: sum.splits)
next
  case False
  obtain h st0 where lh: "load_hist env (find_commit env cc (trade_date row)) st = (h, st0)"
    by (cases "load_hist env (find_commit env cc (trade_date row)) st")
  from load_hist_frame[OF lh] have "cached_values st0 = cached_values st" by simp
  with assms False lh show ?thesis
    by (auto simp: process_row_def Let_def split: sum.splits prod.splits)
qed

lemma process_rows_length:
  "process_rows env cur cc rs st = (None, st1) \<Longrightarrow>
   length (cached_values st1) = length (cached_values st) + length rs"
proof (induction rs arbitrary: st)
  case Nil
  then show ?case by simp
next
  case (Cons row rs)
  then show ?case
    by (auto split: prod.splits option.splits dest!: process_row_length)
qed

lemma cache_asset_values_length:
  assumes "cache_asset_values env mt df_assets = (Inr cached, mt1)"
  shows "length cached = length df_assets \<and> df_assets \<noteq> []"
proof -
  from assms obtain df_current where cur: "current_values env = Some df_current" "df_current \<noteq> []"
    by (auto simp: cache_asset_values_def split: option.splits list.splits)
  from assms cur have ne: "df_assets \<noteq> []"
    by (auto simp: cache_asset_values_def Let_def split: option.splits list.splits)
  define cc where "cc = get_all_commits_since env
     (fold min (map trade_date (tl df_assets)) (trade_date (hd df_assets)) - git_commit_search_days env)"
  define st0 where "st0 = \<lparr>git_df_cache = Map.empty,
     metrics = mt(''count.current_values_loaded'' \<mapsto> of_nat (length df_current)),
     cached_values = [], zero_value_count = 0\<rparr>"
  obtain raised st where run: "process_rows env df_current cc df_assets st0 = (raised, st)"
    by (cases "process_rows env df_current cc df_assets st0")
  from assms cur ne run have "raised = None \<and> cached = cached_values st"
    unfolding cache_asset_values_def cc_def st0_def
    by (cases df_current; cases df_assets)
       (auto simp del: process_rows.simps simp: Let_def split: option.splits)
  with process_rows_length[of env df_current cc df_assets st0 st] run
  have "length cached = length df_assets" by (simp add: st0_def)
  with ne show ?thesis by simp
qed



section \<open>Evaluating concrete runs\<close>

lemma date_2025_10_01: "ymd2ord 2025 10 1 = 739525"
  by (simp add: ymd2ord_def days_before_year_def days_before_month_def days_in_month_def
                is_leap_def upto_rec1)

lemma date_2025_05_05: "ymd2ord 2025 5 5 = 739376"
  by (simp add: ymd2ord_def days_before_year_def days_before_month_def days_in_month_def
                is_leap_def upto_rec1)

lemmas run_defs = cache_asset_values_def process_row_def find_commit_def load_hist_def
  get_values_from_commit_def value_asset_def falsy_sha_def matches_def metadata_of_def
  faab_record_def Let_def upto_rec1

lemma run_player_gone:
  "fst (cache_asset_values env_with_history Map.empty [row_faab, row_player_gone]) =
   Inr [\<lparr>trade_date = 739525, trade_id = ''t1'', trade_type = ''2-team'',
         asset_type = ''faab'', asset_name = ''$50 FAAB'',
         receiving_team = ''jakeduf'', giving_team = ''lndahayo'', origin_owner = None,
         value_at_trade = 50, value_current = 50, value_source_at_trade = ''FAAB'',
         value_source_current = ''FAAB'', metadata = Text ''$50''\<rparr>,
        \<lparr>trade_date = 739525, trade_id = ''t3'', trade_type = ''2-team'',
         asset_type = ''player'', asset_name = ''Tyreek Hill'',
         receiving_team = ''jakeduf'', giving_team = ''lndahayo'', origin_owner = None,
         value_at_trade = 801, value_current = 0,
         value_source_at_trade = ''Git:9f3c2ab'',
         value_source_current = ''Not found'', metadata = Text []\<rparr>]"
  by (simp add: run_defs env_with_history_def env_no_commits_def row_player_gone_def row_faab_def
        ex_current_def ex_historical_def date_2025_10_01 date_2025_05_05
        faab_amount_def py_int_def py_strip_def is_space_def int_body_def int_body_ok_def
        is_digit_def digits_val_def digit_val_def FAAB_VALUE_PER_DOLLAR_def str_int_50)


section \<open>FAAB\<close>

text \<open>
  C7.  A FAAB row whose name is \<^verbatim>\<open>f"${d} FAAB"\<close>, as stage 2 writes it for the amount
  \<open>d\<close>, is valued without an exception; both values are \<open>d\<close> times
  \<open>FAAB_VALUE_PER_DOLLAR\<close>, which is 1, so that the amount 50 gives 50 twice.
\<close>

theorem C7_faab_value:
  assumes "asset_type row = ''faab''"
    and "asset_name row = CHR ''$'' # str_int d @ '' FAAB''"
  shows "\<exists>rec. process_row env df_current commit_cache row st =
                 (None, st\<lparr>cached_values := cached_values st @ [rec]\<rparr>)
             \<and> value_at_trade rec = of_int (d * FAAB_VALUE_PER_DOLLAR)
             \<and> value_current rec = of_int (d * FAAB_VALUE_PER_DOLLAR)
             \<and> FAAB_VALUE_PER_DOLLAR = 1
             \<and> (d = 50 \<longrightarrow> value_at_trade rec = 50 \<and> value_current rec = 50)"
proof -
  from assms(2) have a: "faab_amount (asset_name row) = Some d"
    by (simp add: faab_amount_format)
  then obtain rec where r: "faab_record row = Inr rec"
    and v: "value_at_trade rec = of_int (d * FAAB_VALUE_PER_DOLLAR)"
           "value_current rec = of_int (d * FAAB_VALUE_PER_DOLLAR)"
    by (simp add: faab_record_def Let_def)
  from assms(1) r have "process_row env df_current commit_cache row st =
      (None, st\<lparr>cached_values := cached_values st @ [rec]\<rparr>)"
    by (simp add: process_row_def)
  with v show ?thesis
    by (intro exI[of _ rec]) (simp add: FAAB_VALUE_PER_DOLLAR_def)
qed

theorem C7_faab_value_witness:
  "\<exists>rec. process_row env_no_commits ex_current Map.empty row_faab st_empty =
           (None, st_empty\<lparr>cached_values := cached_values st_empty @ [rec]\<rparr>)
       \<and> value_at_trade rec = 50 \<and> value_current rec = 50"
proof -
  have t: "asset_type row_faab = ''faab''"
    by (simp add: row_faab_def)
  have n: "asset_name row_faab = CHR ''$'' # str_int 50 @ '' FAAB''"
    by (simp add: row_faab_def str_int_50)
  from C7_faab_value[OF t n, of env_no_commits ex_current Map.empty st_empty]
  show ?thesis by auto
qed


section \<open>The zero-value gate\<close>

text \<open>
  C10.  For a run whose valuation completes with the records \<open>cached\<close>, \<^verbatim>\<open>main\<close> ends
  in the data-quality failure exactly when the number of records with
  \<open>value_at_trade = 0\<close>, divided by the number of all records (FAAB records among
  them), exceeds \<open>max_zero_value_pct\<close>; no other failure comes from the gate, and a
  record whose \<open>value_at_trade\<close> is not 0 adds nothing to the count, whatever its
  \<open>value_current\<close>.
\<close>

theorem C10_zero_value_gate:
  assumes "validate_stage3_prerequisites fs = Inr ()"
    and "cache_asset_values env mt (the (asset_transactions_csv fs)) = (Inr cached, mt1)"
  shows "(fst (main env fs mt) = Inl (ValidationError TooManyZeroValues)) =
           (of_nat (length (filter (\<lambda>r. value_at_trade r = 0) cached)) / of_nat (length cached)
              > max_zero_value_pct env)
         \<and> (\<forall>e. fst (main env fs mt) = Inl e \<longrightarrow> e = ValidationError TooManyZeroValues)
         \<and> (\<forall>r df. value_at_trade r \<noteq> 0 \<longrightarrow> zero_at_trade (r # df) = zero_at_trade df)"
proof -
  from cache_asset_values_length[OF assms(2)] have ne: "cached \<noteq> []" by auto
  show ?thesis
    using assms ne
    by (auto simp: main_def Let_def validate_stage3_output_def zero_at_trade_def)
qed

theorem C10_zero_value_gate_witness:
  "validate_stage3_prerequisites (files_with [row_faab, row_player_gone]) = Inr ()
   \<and> (\<exists>r1 r2. fst (cache_asset_values env_with_history Map.empty [row_faab, row_player_gone]) = Inr [r1, r2]
          \<and> value_at_trade r2 \<noteq> 0 \<and> value_current r2 = 0)
   \<and> fst (main env_with_history (files_with [row_faab, row_player_gone]) Map.empty)
        \<noteq> Inl (ValidationError TooManyZeroValues)"
proof -
  let ?fs = "files_with [row_faab, row_player_gone]"
  let ?run = "cache_asset_values env_with_history Map.empty (the (asset_transactions_csv ?fs))"
  have p: "validate_stage3_prerequisites ?fs = Inr ()"
    by (simp add: validate_stage3_prerequisites_def files_with_def)
  have a: "the (asset_transactions_csv ?fs) = [row_faab, row_player_gone]"
    by (simp add: files_with_def)
  obtain cached where c: "fst ?run = Inr cached"
    unfolding a run_player_gone by simp
  have r: "?run = (Inr cached, snd ?run)"
    using c by (metis prod.collapse)
  from c have cv: "cached = projr (fst ?run)" by simp
  have "\<not> (of_nat (length (filter (\<lambda>r. value_at_trade r = 0) cached)) / of_nat (length cached)
              > max_zero_value_pct env_with_history)"
    unfolding cv a run_player_gone
    by (simp add: env_with_history_def env_no_commits_def)
  with C10_zero_value_gate[OF p r]
  have "fst (main env_with_history ?fs Map.empty) \<noteq> Inl (ValidationError TooManyZeroValues)"
    by simp
  with p show ?thesis
    unfolding run_player_gone by simp
qed



section \<open>Choosing the week column\<close>

lemma fold_max_spec:
  "fold (\<lambda>y m. if m < y then y else m) xs (x::int) \<in> set (x # xs) \<and>
   (\<forall>y \<in> set (x # xs). y \<le> fold (\<lambda>y m. if m < y then y else m) xs x)"
proof (induction xs arbitrary: x)
  case Nil
  then show ?case by simp
next
  case (Cons a xs)
  show ?case
  proof (cases "x < a")
    case True
    with Cons[of a] show ?thesis by auto
  next
    case False
    with Cons[of x] show ?thesis by auto
  qed
qed

lemma fold_min_spec:
  "fold (\<lambda>y m. if y < m then y else m) xs (x::int) \<in> set (x # xs) \<and>
   (\<forall>y \<in> set (x # xs). fold (\<lambda>y m. if y < m then y else m) xs x \<le> y)"
proof (induction xs arbitrary: x)
  case Nil
  then show ?case by simp
next
  case (Cons a xs)
  show ?case
  proof (cases "a < x")
    case True
    with Cons[of a] show ?thesis by auto
  next
    case False
    with Cons[of x] show ?thesis by auto
  qed
qed

lemma py_max_spec:
  "xs \<noteq> [] \<Longrightarrow> \<exists>m. py_max xs = Some m \<and> m \<in> set xs \<and> (\<forall>y \<in> set xs. y \<le> m)"
  using fold_max_spec by (cases xs) auto

lemma py_min_spec:
  "xs \<noteq> [] \<Longrightarrow> \<exists>m. py_min xs = Some m \<and> m \<in> set xs \<and> (\<forall>y \<in> set xs. m \<le> y)"
  using fold_min_spec by (cases xs) auto

lemma best_week_general:
  assumes "get_available_weeks cols round_name \<noteq> []"
  shows "\<exists>w. get_best_week_column cols round_name target = Inr (week_column w round_name, w)
           \<and> w \<in> set (get_available_weeks cols round_name)
           \<and> (target \<in> set (get_available_weeks cols round_name) \<longrightarrow> w = target)
           \<and> (target \<notin> set (get_available_weeks cols round_name)
                \<and> (\<exists>x \<in> set (get_available_weeks cols round_name). x \<le> target)
                \<longrightarrow> w \<le> target
                    \<and> (\<forall>x \<in> set (get_available_weeks cols round_name). x \<le> target \<longrightarrow> x \<le> w))
           \<and> (target \<notin> set (get_available_weeks cols round_name)
                \<and> (\<forall>x \<in> set (get_available_weeks cols round_name). target < x)
                \<longrightarrow> (\<forall>x \<in> set (get_available_weeks cols round_name). w \<le> x))"
proof -
  let ?ws = "get_available_weeks cols round_name"
  consider (exact) "target \<in> set ?ws"
    | (before) "target \<notin> set ?ws" "\<exists>x \<in> set ?ws. x \<le> target"
    | (after) "target \<notin> set ?ws" "\<forall>x \<in> set ?ws. target < x"
    by fastforce
  then show ?thesis
  proof cases
    case exact
    with assms show ?thesis
      by (simp add: get_best_week_column_def)
  next
    case before
    let ?le = "filter (\<lambda>w. w \<le> target) ?ws"
    from before(2) have "?le \<noteq> []" by (auto simp: filter_empty_conv)
    from py_max_spec[OF this] obtain m where
      m: "py_max ?le = Some m" "m \<in> set ?le" "\<forall>y \<in> set ?le. y \<le> m" by blast
    from before have ex: "list_ex (\<lambda>w. w \<le> target) ?ws" by (simp add: list_ex_iff)
    from assms before ex m(1) have
      "get_best_week_column cols round_name target = Inr (week_column m round_name, m)"
      by (simp add: get_best_week_column_def)
    with m before show ?thesis by auto
  next
    case after
    from py_min_spec[OF assms] obtain m where
      m: "py_min ?ws = Some m" "m \<in> set ?ws" "\<forall>y \<in> set ?ws. m \<le> y" by blast
    from after have ex: "\<not> list_ex (\<lambda>w. w \<le> target) ?ws" by (auto simp: list_ex_iff)
    from assms after ex m(1) have
      "get_best_week_column cols round_name target = Inr (week_column m round_name, m)"
      by (simp add: get_best_week_column_def)
    with m after show ?thesis by auto
  qed
qed

lemma weeks_example:
  "get_available_weeks [''Team'', ''Week7_2026_2nd'', ''Week12_2026_2nd''] ''2nd'' = [7, 12]"
  by (simp add: get_available_weeks_def week_of_column_def List.map_filter_def
        is_digit_def digits_val_def digit_val_def)

lemma str_int_7: "str_int 7 = ''7''"
  by (simp add: str_int_def str_nat.simps digit_char_def)

text \<open>
  C5.  When the frame has week columns for the round, \<^verbatim>\<open>get_best_week_column\<close>
  returns one of the available weeks with its column name: the target week when it is
  available; else, when some available week is not after the target, the largest such
  week; else the smallest available week.  With \<^verbatim>\<open>Week7\<close> and \<^verbatim>\<open>Week12\<close> only, the
  targets 9 and 3 both select week 7.
\<close>

theorem C5_best_week_column:
  "(get_available_weeks cols round_name \<noteq> [] \<longrightarrow>
     (\<exists>w. get_best_week_column cols round_name target = Inr (week_column w round_name, w)
           \<and> w \<in> set (get_available_weeks cols round_name)
           \<and> (target \<in> set (get_available_weeks cols round_name) \<longrightarrow> w = target)
           \<and> (target \<notin> set (get_available_weeks cols round_name)
                \<and> (\<exists>x \<in> set (get_available_weeks cols round_name). x \<le> target)
                \<longrightarrow> w \<le> target
                    \<and> (\<forall>x \<in> set (get_available_weeks cols round_name). x \<le> target \<longrightarrow> x \<le> w))
           \<and> (target \<notin> set (get_available_weeks cols round_name)
                \<and> (\<forall>x \<in> set (get_available_weeks cols round_name). target < x)
                \<longrightarrow> (\<forall>x \<in> set (get_available_weeks cols round_name). w \<le> x))))
   \<and> get_best_week_column [''Team'', ''Week7_2026_2nd'', ''Week12_2026_2nd''] ''2nd'' 9
        = Inr (''Week7_2026_2nd'', 7)
   \<and> get_best_week_column [''Team'', ''Week7_2026_2nd'', ''Week12_2026_2nd''] ''2nd'' 3
        = Inr (''Week7_2026_2nd'', 7)"
proof (intro conjI impI)
  assume "get_available_weeks cols round_name \<noteq> []"
  then show "\<exists>w. get_best_week_column cols round_name target = Inr (week_column w round_name, w)
           \<and> w \<in> set (get_available_weeks cols round_name)
           \<and> (target \<in> set (get_available_weeks cols round_name) \<longrightarrow> w = target)
           \<and> (target \<notin> set (get_available_weeks cols round_name)
                \<and> (\<exists>x \<in> set (get_available_weeks cols round_name). x \<le> target)
                \<longrightarrow> w \<le> target
                    \<and> (\<forall>x \<in> set (get_available_weeks cols round_name). x \<le> target \<longrightarrow> x \<le> w))
           \<and> (target \<notin> set (get_available_weeks cols round_name)
                \<and> (\<forall>x \<in> set (get_available_weeks cols round_name). target < x)
                \<longrightarrow> (\<forall>x \<in> set (get_available_weeks cols round_name). w \<le> x))"
    by (rule best_week_general)
next
  show "get_best_week_column [''Team'', ''Week7_2026_2nd'', ''Week12_2026_2nd''] ''2nd'' 9
        = Inr (''Week7_2026_2nd'', 7)"
    by (simp add: get_best_week_column_def weeks_example week_column_def str_int_7)
next
  show "get_best_week_column [''Team'', ''Week7_2026_2nd'', ''Week12_2026_2nd''] ''2nd'' 3
        = Inr (''Week7_2026_2nd'', 7)"
    by (simp add: get_best_week_column_def weeks_example week_column_def str_int_7)
qed

theorem C5_best_week_column_witness:
  "get_available_weeks (columns ex_projections) ''2nd'' = [7, 12]
   \<and> get_best_week_column (columns ex_projections) ''2nd'' 9 = Inr (''Week7_2026_2nd'', 7)
   \<and> get_best_week_column (columns ex_projections) ''2nd'' 3 = Inr (''Week7_2026_2nd'', 7)"
proof -
  have c: "columns ex_projections = [''Team'', ''Week7_2026_2nd'', ''Week12_2026_2nd'']"
    by (simp add: ex_projections_def)
  have ne: "get_available_weeks (columns ex_projections) ''2nd'' \<noteq> []"
    by (simp add: c weeks_example)
  from C5_best_week_column[of "columns ex_projections" "''2nd''" 9] ne
  obtain w where w: "get_best_week_column (columns ex_projections) ''2nd'' 9
                       = Inr (week_column w ''2nd'', w)"
      "w \<in> set (get_available_weeks (columns ex_projections) ''2nd'')"
      "(9::int) \<notin> set (get_available_weeks (columns ex_projections) ''2nd'')
                \<and> (\<exists>x \<in> set (get_available_weeks (columns ex_projections) ''2nd''). x \<le> 9)
                \<longrightarrow> w \<le> 9"
    by blast
  from w(2,3) have "w = 7" by (simp add: c weeks_example)
  with w(1) have 9: "get_best_week_column (columns ex_projections) ''2nd'' 9 = Inr (''Week7_2026_2nd'', 7)"
    by (simp add: week_column_def str_int_7)
  from C5_best_week_column[of "columns ex_projections" "''2nd''" 3]
  have "get_best_week_column (columns ex_projections) ''2nd'' 3 = Inr (''Week7_2026_2nd'', 7)"
    unfolding c by blast
  with 9 show ?thesis by (simp add: c weeks_example)
qed



section \<open>Picks of the 2025 draft\<close>







lemma parse_round_example: "parse_round ''2025 Round 1'' = Some 1"
  by (simp add: parse_round_def py_split_def py_int_def py_strip_def is_space_def int_body_def
        int_body_ok_def is_digit_def digits_val_def digit_val_def)










section \<open>Finding the historical table\<close>












lemma run_no_commits:
  "fst (cache_asset_values env_no_commits Map.empty [row_player]) =
   Inr [\<lparr>trade_date = 739525, trade_id = ''t1'', trade_type = ''2-team'',
         asset_type = ''player'', asset_name = ''Josh Allen'',
         receiving_team = ''lndahayo'', giving_team = ''jakeduf'', origin_owner = None,
         value_at_trade = 0, value_current = 7000, value_source_at_trade = ''No Git commit'',
         value_source_current = ''DynastyProcess'', metadata = Text []\<rparr>]"
  by (simp add: run_defs env_no_commits_def row_player_def ex_current_def date_2025_10_01)

lemma run_fetch_fails:
  "fst (cache_asset_values env_fetch_fails Map.empty [row_player]) =
   Inr [\<lparr>trade_date = 739525, trade_id = ''t1'', trade_type = ''2-team'',
         asset_type = ''player'', asset_name = ''Josh Allen'',
         receiving_team = ''lndahayo'', giving_team = ''jakeduf'', origin_owner = None,
         value_at_trade = 0, value_current = 7000, value_source_at_trade = ''No Git commit'',
         value_source_current = ''DynastyProcess'', metadata = Text []\<rparr>]"
  by (simp add: run_defs env_fetch_fails_def env_no_commits_def row_player_def ex_current_def
        date_2025_10_01)








section \<open>The stage and its output file\<close>

lemma main_after_valuation:
  assumes "validate_stage3_prerequisites fs = Inr ()"
    and "fst (cache_asset_values env mt (the (asset_transactions_csv fs))) = Inr cached"
  shows "fst (main env fs mt) =
           (case validate_stage3_output cached (max_zero_value_pct env) of
              Inl e \<Rightarrow> Inl e | Inr _ \<Rightarrow> Inr ''asset_values_cache.csv'')"
    and "fst (snd (main env fs mt)) =
           fs\<lparr>asset_values_cache_csv := Some cached, backups := backups fs @ [cached]\<rparr>"
proof -
  from assms(2) obtain mt1 where
    "cache_asset_values env mt (the (asset_transactions_csv fs)) = (Inr cached, mt1)"
    by (cases "cache_asset_values env mt (the (asset_transactions_csv fs))") simp
  with assms(1) show
    "fst (main env fs mt) =
           (case validate_stage3_output cached (max_zero_value_pct env) of
              Inl e \<Rightarrow> Inl e | Inr _ \<Rightarrow> Inr ''asset_values_cache.csv'')"
    "fst (snd (main env fs mt)) =
           fs\<lparr>asset_values_cache_csv := Some cached, backups := backups fs @ [cached]\<rparr>"
    by (simp_all add: main_def Let_def split: sum.splits)
qed

text \<open>
  C1 (amended).  When the valuation of a batch completes and more than
  \<open>max_zero_value_pct\<close> of its records have \<open>value_at_trade = 0\<close>, \<^verbatim>\<open>main\<close> ends in the
  data-quality failure and returns no file name.  It does so after the table
  \<^verbatim>\<open>asset_values_cache.csv\<close> and its backup copy have been written: the validator reads
  the file that \<^verbatim>\<open>to_csv\<close> wrote.
\<close>

theorem C1_gate_after_write:
  assumes "validate_stage3_prerequisites fs = Inr ()"
    and "cache_asset_values env mt (the (asset_transactions_csv fs)) = (Inr cached, mt1)"
    and "of_nat (length (filter (\<lambda>r. value_at_trade r = 0) cached)) / of_nat (length cached)
           > max_zero_value_pct env"
  shows "main env fs mt =
           (Inl (ValidationError TooManyZeroValues),
            fs\<lparr>asset_values_cache_csv := Some cached, backups := backups fs @ [cached]\<rparr>,
            mt1)"
proof -
  from cache_asset_values_length[OF assms(2)] have ne: "cached \<noteq> []" by auto
  with assms(3) have "validate_stage3_output cached (max_zero_value_pct env)
                        = Inl (ValidationError TooManyZeroValues)"
    by (simp add: validate_stage3_output_def zero_at_trade_def)
  with assms(1,2) show ?thesis
    by (simp add: main_def Let_def)
qed

theorem C1_gate_after_write_witness:
  "fst (main env_fetch_fails (files_with [row_player]) Map.empty)
     = Inl (ValidationError TooManyZeroValues)
   \<and> map (map value_at_trade) (backups (fst (snd (main env_fetch_fails (files_with [row_player]) Map.empty))))
     = [[0]]"
proof -
  let ?fs = "files_with [row_player]"
  let ?run = "cache_asset_values env_fetch_fails Map.empty (the (asset_transactions_csv ?fs))"
  have p: "validate_stage3_prerequisites ?fs = Inr ()"
    by (simp add: validate_stage3_prerequisites_def files_with_def)
  have a: "the (asset_transactions_csv ?fs) = [row_player]"
    by (simp add: files_with_def)
  obtain cached where c: "fst ?run = Inr cached"
    unfolding a run_fetch_fails by simp
  from c have cv: "cached = projr (fst ?run)" by simp
  have r: "?run = (Inr cached, snd ?run)"
    using c by (metis prod.collapse)
  have z: "of_nat (length (filter (\<lambda>r. value_at_trade r = 0) cached)) / of_nat (length cached)
             > max_zero_value_pct env_fetch_fails"
    unfolding cv a run_fetch_fails
    by (simp add: env_fetch_fails_def env_no_commits_def)
  have v: "map value_at_trade cached = [0]"
    unfolding cv a run_fetch_fails by simp
  from C1_gate_after_write[OF p r z] v show ?thesis
    by (simp add: files_with_def)
qed

text \<open>
  C1 as stated fails in its last part: the run below ends in the data-quality failure,
  and the output table is on disk.
\<close>

theorem C1_output_written_counterexample:
  "fst (main env_no_commits (files_with [row_player]) Map.empty)
     = Inl (ValidationError TooManyZeroValues)
   \<and> asset_values_cache_csv (fst (snd (main env_no_commits (files_with [row_player]) Map.empty)))
     = Some [\<lparr>trade_date = 739525, trade_id = ''t1'', trade_type = ''2-team'',
               asset_type = ''player'', asset_name = ''Josh Allen'',
               receiving_team = ''lndahayo'', giving_team = ''jakeduf'', origin_owner = None,
               value_at_trade = 0, value_current = 7000,
               value_source_at_trade = ''No Git commit'',
               value_source_current = ''DynastyProcess'', metadata = Text []\<rparr>]"
proof -
  let ?fs = "files_with [row_player]"
  have p: "validate_stage3_prerequisites ?fs = Inr ()"
    by (simp add: validate_stage3_prerequisites_def files_with_def)
  have a: "the (asset_transactions_csv ?fs) = [row_player]"
    by (simp add: files_with_def)
  note m = main_after_valuation[OF p, of env_no_commits Map.empty, unfolded a, OF run_no_commits]
  have t: "max_zero_value_pct env_no_commits = 1 / 10"
    by (simp add: env_no_commits_def)
  show ?thesis
    unfolding m t
    by (simp add: validate_stage3_output_def zero_at_trade_def files_with_def)
qed



section \<open>Pick labels and table keys\<close>

lemma split_from_absent:
  "sep = c # cs \<Longrightarrow> c \<notin> set s \<Longrightarrow> split_from sep cur s = [rev cur @ s]"
  by (induction s arbitrary: cur) auto

lemma split_from_first:
  "sep = c # cs \<Longrightarrow> c \<notin> set pre \<Longrightarrow>
   split_from sep cur (pre @ sep @ rest) = (rev cur @ pre) # split_from sep [] rest"
proof (induction pre arbitrary: cur)
  case Nil
  then show ?case by simp
next
  case (Cons a pre)
  from Cons.prems have "a \<noteq> c" by auto
  with Cons.prems have "\<not> prefix sep (a # pre @ sep @ rest)" by auto
  with Cons show ?case by simp
qed

lemma split_from_two:
  "length (split_from sep cur s) \<ge> 2 \<Longrightarrow> set sep \<subseteq> set s"
proof (induction sep cur s rule: split_from.induct)
  case (1 sep cur)
  then show ?case by simp
next
  case (2 sep cur c cs)
  show ?case
  proof (cases "sep \<noteq> [] \<and> prefix sep (c # cs)")
    case True
    then have "prefix sep (c # cs)" by simp
    then show ?thesis by (rule set_mono_prefix)
  next
    case False
    with 2 have "set sep \<subseteq> set cs" by auto
    then show ?thesis by auto
  qed
qed

lemma parse_round_needs_Round:
  assumes "parse_round label = Some r"
  shows "CHR ''R'' \<in> set label"
proof -
  from assms have "length (split_from ''Round'' [] label) \<ge> 2"
    by (auto simp: parse_round_def py_split_def split: list.splits)
  then have "set ''Round'' \<subseteq> set label" by (rule split_from_two)
  then show ?thesis by simp
qed

lemma str_int_no_R: "CHR ''R'' \<notin> set (str_int i)"
  using str_int_chars[of "CHR ''R''" i] is_digit_plain[of "CHR ''R''"] by auto

lemma exact_pick_no_R: "CHR ''R'' \<notin> set (exact_pick r slot)"
  using str_int_no_R by (simp add: exact_pick_def pick_position_def fmt_02d_def)

lemma str_int_ends: "\<not> is_space (hd (str_int i))" "\<not> is_space (last (str_int i))"
proof -
  have "hd (str_int i) \<in> set (str_int i)" "last (str_int i) \<in> set (str_int i)"
    using str_int_not_Nil by simp_all
  then have "(hd (str_int i) = CHR ''-'' \<or> is_digit (hd (str_int i)))"
       "(last (str_int i) = CHR ''-'' \<or> is_digit (last (str_int i)))"
    using str_int_chars by blast+
  moreover have "\<not> is_space CHR ''-''" by (simp add: is_space_def)
  ultimately show "\<not> is_space (hd (str_int i))" "\<not> is_space (last (str_int i))"
    using is_digit_not_space by auto
qed

lemma parse_round_label:
  assumes "CHR ''R'' \<notin> set season"
  shows "parse_round (season @ '' Round '' @ str_int r) = Some r"
proof -
  have "season @ '' Round '' @ str_int r = (season @ '' '') @ ''Round'' @ ('' '' @ str_int r)"
    by simp
  moreover from assms have "CHR ''R'' \<notin> set (season @ '' '')" by simp
  ultimately have "split_from ''Round'' [] (season @ '' Round '' @ str_int r)
        = (season @ '' '') # split_from ''Round'' [] ('' '' @ str_int r)"
    using split_from_first[where sep = "''Round''" and c = "CHR ''R''" and cs = "''ound''"
            and pre = "season @ '' ''" and cur = "[]" and rest = "'' '' @ str_int r"]
    by simp
  moreover have "split_from ''Round'' [] ('' '' @ str_int r) = ['' '' @ str_int r]"
    using split_from_absent[where sep = "''Round''" and c = "CHR ''R''" and cs = "''ound''"
            and s = "'' '' @ str_int r" and cur = "[]"] str_int_no_R[of r]
    by simp
  ultimately have sp: "py_split ''Round'' (season @ '' Round '' @ str_int r)
        = [season @ '' '', '' '' @ str_int r]"
    by (simp add: py_split_def)
  have "py_strip ('' '' @ str_int r) = py_strip (str_int r)"
    by (simp add: py_strip_def is_space_def)
  also have "\<dots> = str_int r"
    using str_int_not_Nil str_int_ends by (intro py_strip_id)
  finally have "py_int (py_strip ('' '' @ str_int r)) = Some r"
    by (simp add: py_int_str_int)
  with sp show ?thesis by (simp add: parse_round_def)
qed

text \<open>
  C8 (amended).  The parser reads the round only; the slot comes from the lineage.  The
  pair is serialised as the key \<^verbatim>\<open>2025 Pick R.SS\<close> of the value table, which is never
  the label that was parsed.  In the other direction the label \<^verbatim>\<open><season> Round <R>\<close>,
  as stage 2 writes it, parses back to \<open>R\<close>.
\<close>

theorem C8_label_and_table_key:
  "(parse_round label = Some r \<longrightarrow> exact_pick r slot \<noteq> label)
   \<and> (CHR ''R'' \<notin> set season \<longrightarrow> parse_round (season @ '' Round '' @ str_int r) = Some r)"
proof (intro conjI impI)
  assume "parse_round label = Some r"
  then have "CHR ''R'' \<in> set label" by (rule parse_round_needs_Round)
  with exact_pick_no_R[of r slot] show "exact_pick r slot \<noteq> label" by auto
next
  assume "CHR ''R'' \<notin> set season"
  then show "parse_round (season @ '' Round '' @ str_int r) = Some r"
    by (rule parse_round_label)
qed

lemma str_int_2: "str_int 2 = ''2''"
  by (simp add: str_int_def str_nat.simps digit_char_def)

theorem C8_label_and_table_key_witness:
  "parse_round ''2025 Round 2'' = Some 2 \<and> exact_pick 2 7 \<noteq> ''2025 Round 2''"
proof -
  have s: "CHR ''R'' \<notin> set ''2025''" by simp
  from C8_label_and_table_key[of "''2025 Round 2''" 2 7 "''2025''"] s
  have p: "parse_round (''2025'' @ '' Round '' @ str_int 2) = Some 2" by blast
  then have q: "parse_round ''2025 Round 2'' = Some 2" by (simp add: str_int_2)
  with C8_label_and_table_key[of "''2025 Round 2''" 2 7 "''2025''"]
  show ?thesis by blast
qed

text \<open>
  C8 as stated fails: the label \<^verbatim>\<open>2025 Round 1\<close> parses to round 1, and with the slot 1
  the pair is serialised as \<^verbatim>\<open>2025 Pick 1.01\<close>.
\<close>

theorem C8_round_trip_counterexample:
  "parse_round ''2025 Round 1'' = Some 1
   \<and> exact_pick 1 1 = ''2025 Pick 1.01''
   \<and> exact_pick 1 1 \<noteq> ''2025 Round 1''"
  by (simp add: parse_round_example exact_pick_def pick_position_def fmt_02d_def str_int_def
        str_nat.simps digit_char_def)



section \<open>Running the valuation twice\<close>

lemma get_values_consistent:
  assumes "\<forall>s df. git_df_cache st s = Some df \<longrightarrow> read_commit_csv env s = Some df"
  shows "fst (get_values_from_commit env sha st) = read_commit_csv env sha"
    and "\<forall>s df. git_df_cache (snd (get_values_from_commit env sha st)) s = Some df
                 \<longrightarrow> read_commit_csv env s = Some df"
  using assms
  by (auto simp: get_values_from_commit_def split: option.splits)

lemma load_hist_consistent:
  assumes "\<forall>s df. git_df_cache st s = Some df \<longrightarrow> read_commit_csv env s = Some df"
  shows "fst (load_hist env sha st) =
           (case sha of None \<Rightarrow> None
            | Some s \<Rightarrow> if s = [] then None else read_commit_csv env s)"
    and "\<forall>s df. git_df_cache (snd (load_hist env sha st)) s = Some df
                 \<longrightarrow> read_commit_csv env s = Some df"
  using assms get_values_consistent[OF assms]
  by (auto simp: load_hist_def split: option.splits)

lemma process_row_sim:
  assumes c1: "\<forall>s df. git_df_cache st s = Some df \<longrightarrow> read_commit_csv env s = Some df"
    and c2: "\<forall>s df. git_df_cache st' s = Some df \<longrightarrow> read_commit_csv env s = Some df"
    and e1: "cached_values st = cached_values st'"
    and e2: "zero_value_count st = zero_value_count st'"
  shows "fst (process_row env cur cc row st) = fst (process_row env cur cc row st')
     \<and> cached_values (snd (process_row env cur cc row st))
         = cached_values (snd (process_row env cur cc row st'))
     \<and> zero_value_count (snd (process_row env cur cc row st))
         = zero_value_count (snd (process_row env cur cc row st'))
     \<and> (\<forall>s df. git_df_cache (snd (process_row env cur cc row st)) s = Some df
                 \<longrightarrow> read_commit_csv env s = Some df)
     \<and> (\<forall>s df. git_df_cache (snd (process_row env cur cc row st')) s = Some df
                 \<longrightarrow> read_commit_csv env s = Some df)"
proof (cases "asset_type row = ''faab''")
  case True
  with c1 c2 e1 e2 show ?thesis
    by (auto simp: process_row_def split: sum.splits)
next
  case False
  let ?sha = "find_commit env cc (trade_date row)"
  obtain h st1 where l1: "load_hist env ?sha st = (h, st1)"
    by (cases "load_hist env ?sha st")
  obtain h' st1' where l2: "load_hist env ?sha st' = (h', st1')"
    by (cases "load_hist env ?sha st'")
  from load_hist_consistent[OF c1, of ?sha] l1
  have h1: "h = (case ?sha of None \<Rightarrow> None | Some s \<Rightarrow> if s = [] then None else read_commit_csv env s)"
    and k1: "\<forall>s df. git_df_cache st1 s = Some df \<longrightarrow> read_commit_csv env s = Some df"
    by simp_all
  from load_hist_consistent[OF c2, of ?sha] l2
  have h2: "h' = (case ?sha of None \<Rightarrow> None | Some s \<Rightarrow> if s = [] then None else read_commit_csv env s)"
    and k2: "\<forall>s df. git_df_cache st1' s = Some df \<longrightarrow> read_commit_csv env s = Some df"
    by simp_all
  from h1 h2 have hh: "h' = h" by simp
  from load_hist_frame[OF l1] load_hist_frame[OF l2] e1 e2
  have f: "cached_values st1 = cached_values st1'" "zero_value_count st1 = zero_value_count st1'"
    by simp_all
  show ?thesis
  proof (cases "value_asset env cur ?sha h row")
    case (Inl e)
    with False l1 l2 hh k1 k2 f show ?thesis
      by (simp add: process_row_def Let_def)
  next
    case (Inr res)
    obtain v_at s_at m_at v_cur s_cur m_cur where
      "res = ((v_at, s_at, m_at), (v_cur, s_cur, m_cur))"
      by (metis prod.exhaust)
    with Inr False l1 l2 hh k1 k2 f show ?thesis
      by (simp add: process_row_def Let_def)
  qed
qed

lemma process_rows_sim:
  assumes "\<forall>s df. git_df_cache st s = Some df \<longrightarrow> read_commit_csv env s = Some df"
    and "\<forall>s df. git_df_cache st' s = Some df \<longrightarrow> read_commit_csv env s = Some df"
    and "cached_values st = cached_values st'"
    and "zero_value_count st = zero_value_count st'"
  shows "fst (process_rows env cur cc rs st) = fst (process_rows env cur cc rs st')
     \<and> cached_values (snd (process_rows env cur cc rs st))
         = cached_values (snd (process_rows env cur cc rs st'))
     \<and> zero_value_count (snd (process_rows env cur cc rs st))
         = zero_value_count (snd (process_rows env cur cc rs st'))"
  using assms
proof (induction rs arbitrary: st st')
  case Nil
  then show ?case by simp
next
  case (Cons row rs)
  obtain r1 t1 where p1: "process_row env cur cc row st = (r1, t1)"
    by (cases "process_row env cur cc row st")
  obtain r2 t2 where p2: "process_row env cur cc row st' = (r2, t2)"
    by (cases "process_row env cur cc row st'")
  from process_row_sim[OF Cons.prems, of cur cc row] p1 p2
  have s: "r1 = r2" "cached_values t1 = cached_values t2"
    "zero_value_count t1 = zero_value_count t2"
    "\<forall>s df. git_df_cache t1 s = Some df \<longrightarrow> read_commit_csv env s = Some df"
    "\<forall>s df. git_df_cache t2 s = Some df \<longrightarrow> read_commit_csv env s = Some df"
    by simp_all
  show ?case
  proof (cases r1)
    case None
    with s(1) p1 p2 Cons.IH[OF s(4) s(5) s(2) s(3)] show ?thesis by simp
  next
    case (Some e)
    with s(1) have "r1 = Some e" "r2 = Some e" by simp_all
    with s(2,3) p1 p2 show ?thesis by simp
  qed
qed

text \<open>
  C9.  The records that \<^verbatim>\<open>cache_asset_values\<close> returns (or the exception that ends it)
  do not depend on what the process has recorded in \<^verbatim>\<open>metrics\<close> before: for the same
  rows, tables, projections, lineage and commit data, a second run, started in the
  state the first one left, returns what the first returned.  The table cache starts
  empty in each run and only ever holds what reading the commit gives.
\<close>

theorem C9_valuation_deterministic:
  "fst (cache_asset_values env mt df_assets) = fst (cache_asset_values env mt' df_assets)
   \<and> fst (cache_asset_values env (snd (cache_asset_values env mt df_assets)) df_assets)
       = fst (cache_asset_values env mt df_assets)"
proof -
  have ind: "fst (cache_asset_values env m1 df_assets) = fst (cache_asset_values env m2 df_assets)"
    for m1 m2
  proof (cases "current_values env")
    case None
    then show ?thesis by (simp add: cache_asset_values_def)
  next
    case (Some df_current)
    show ?thesis
    proof (cases "df_current = [] \<or> df_assets = []")
      case True
      with Some show ?thesis
        by (auto simp: cache_asset_values_def Let_def split: list.splits)
    next
      case False
      define cc where "cc = get_all_commits_since env
        (fold min (map trade_date (tl df_assets)) (trade_date (hd df_assets))
           - git_commit_search_days env)"
      define s1 where "s1 = \<lparr>git_df_cache = Map.empty,
        metrics = m1(''count.current_values_loaded'' \<mapsto> of_nat (length df_current)),
        cached_values = [], zero_value_count = 0\<rparr>"
      define s2 where "s2 = \<lparr>git_df_cache = Map.empty,
        metrics = m2(''count.current_values_loaded'' \<mapsto> of_nat (length df_current)),
        cached_values = [], zero_value_count = 0\<rparr>"
      obtain r1 t1 where p1: "process_rows env df_current cc df_assets s1 = (r1, t1)"
        by (cases "process_rows env df_current cc df_assets s1")
      obtain r2 t2 where p2: "process_rows env df_current cc df_assets s2 = (r2, t2)"
        by (cases "process_rows env df_current cc df_assets s2")
      have "fst (process_rows env df_current cc df_assets s1)
              = fst (process_rows env df_current cc df_assets s2)
          \<and> cached_values (snd (process_rows env df_current cc df_assets s1))
              = cached_values (snd (process_rows env df_current cc df_assets s2))
          \<and> zero_value_count (snd (process_rows env df_current cc df_assets s1))
              = zero_value_count (snd (process_rows env df_current cc df_assets s2))"
        by (rule process_rows_sim) (simp_all add: s1_def s2_def)
      with p1 p2 have eq: "r1 = r2" "cached_values t1 = cached_values t2" by simp_all
      have c1: "fst (cache_asset_values env m1 df_assets) =
                  (case r1 of Some e \<Rightarrow> Inl e | None \<Rightarrow> Inr (cached_values t1))"
        using Some False p1
        unfolding cache_asset_values_def cc_def s1_def
        by (cases df_current; cases df_assets)
           (auto simp del: process_rows.simps simp: Let_def split: option.splits)
      have c2: "fst (cache_asset_values env m2 df_assets) =
                  (case r2 of Some e \<Rightarrow> Inl e | None \<Rightarrow> Inr (cached_values t2))"
        using Some False p2
        unfolding cache_asset_values_def cc_def s2_def
        by (cases df_current; cases df_assets)
           (auto simp del: process_rows.simps simp: Let_def split: option.splits)
      from c1 c2 eq show ?thesis by (cases r2) simp_all
    qed
  qed
  from ind[of mt mt'] ind[of "snd (cache_asset_values env mt df_assets)" mt]
  show ?thesis by simp
qed

theorem C9_valuation_deterministic_witness:
  "fst (cache_asset_values env_with_history
          (snd (cache_asset_values env_with_history Map.empty [row_faab, row_player_gone]))
          [row_faab, row_player_gone])
   = fst (cache_asset_values env_with_history Map.empty [row_faab, row_player_gone])
   \<and> map value_at_trade (projr (fst (cache_asset_values env_with_history
          (snd (cache_asset_values env_with_history Map.empty [row_faab, row_player_gone]))
          [row_faab, row_player_gone]))) = [50, 801]"
proof -
  from C9_valuation_deterministic[of env_with_history Map.empty "[row_faab, row_player_gone]"]
  have e: "fst (cache_asset_values env_with_history
          (snd (cache_asset_values env_with_history Map.empty [row_faab, row_player_gone]))
          [row_faab, row_player_gone])
   = fst (cache_asset_values env_with_history Map.empty [row_faab, row_player_gone])"
    by blast
  show ?thesis
    unfolding e run_player_gone by simp
qed

end
